theory Spec2Isabelle
  imports Complex_Main
begin

section \<open>Values exchanged with the backends\<close>

text \<open>
  The gateway of \<^verbatim>\<open>src/api/main.py\<close> is a set of request handlers over one shared
  HTTP client.  Bodies are byte strings; a HOL \<^typ>\<open>char\<close> is one byte.  Headers are lists
  of header lines.
\<close>

type_synonym bytes = string
type_synonym headers = "(string \<times> string) list"

text \<open>
  A parsed JSON document, as Python's \<^verbatim>\<open>json\<close> module returns it.  A float is a
  rational or one of the three special values the parser accepts; only whether it is
  zero matters to the handlers.
\<close>

datatype pyfloat = Finite rat | PosInfinity | NegInfinity | NaN

datatype json =
    JNull
  | JBool bool
  | JInt int
  | JFloat pyfloat
  | JStr string
  | JArr "json list"
  | JObj "(string \<times> json) list"

text \<open>
  The exceptions the handlers can meet, each carrying the text \<^verbatim>\<open>str(e)\<close> gives.  All
  of them are subclasses of \<^verbatim>\<open>Exception\<close>, so \<^verbatim>\<open>except:\<close> and
  \<^verbatim>\<open>except Exception\<close> catch the same ones.
\<close>

datatype exn =
    TransportError string
  | JSONDecodeError string
  | AttributeError string
  | TypeError string

fun str :: "exn \<Rightarrow> string" where
  "str (TransportError m) = m"
| "str (JSONDecodeError m) = m"
| "str (AttributeError m) = m"
| "str (TypeError m) = m"

subsection \<open>Python dictionaries and truth values\<close>

text \<open>\<^verbatim>\<open>d[k] = v\<close> on an insertion-ordered dictionary.\<close>

fun dict_set :: "'k \<Rightarrow> 'v \<Rightarrow> ('k \<times> 'v) list \<Rightarrow> ('k \<times> 'v) list" where
  "dict_set k v [] = [(k, v)]"
| "dict_set k v ((k', v') # d) =
     (if k' = k then (k, v) # d else (k', v') # dict_set k v d)"

text \<open>\<^verbatim>\<open>dict(items)\<close>: the items are stored one after the other.\<close>

fun dict_from :: "('k \<times> 'v) list \<Rightarrow> ('k \<times> 'v) list \<Rightarrow> ('k \<times> 'v) list" where
  "dict_from d [] = d"
| "dict_from d ((k, v) # rest) = dict_from (dict_set k v d) rest"

definition dict :: "('k \<times> 'v) list \<Rightarrow> ('k \<times> 'v) list" where
  "dict items = dict_from [] items"

text \<open>\<^verbatim>\<open>", ".join(values)\<close>\<close>

fun join_values :: "string list \<Rightarrow> string" where
  "join_values [] = []"
| "join_values [v] = v"
| "join_values (v # v' # vs) = v @ '', '' @ join_values (v' # vs)"

text \<open>
  Headers are the header lines of a message in the order sent, a name (in lower case, as
  both libraries expose it) and a value each; a name may be repeated.

  \<^verbatim>\<open>dict(request.headers)\<close>: the inbound headers are Starlette's \<^verbatim>\<open>Headers\<close>, whose
  \<^verbatim>\<open>keys()\<close> lists the name of every line and which answers a name with the value of its
  first line.  \<^verbatim>\<open>dict(resp.headers)\<close>: a backend's headers are httpx's \<^verbatim>\<open>Headers\<close>, which
  answers a name with the values of all its lines joined by a comma and a space.
\<close>

definition request_headers_dict :: "(string \<times> string) list \<Rightarrow> (string \<times> string) list" where
  "request_headers_dict hs =
     dict (map (\<lambda>line. (fst line,
                        case map_of hs (fst line) of Some v \<Rightarrow> v | None \<Rightarrow> snd line)) hs)"

definition response_headers_dict :: "(string \<times> string) list \<Rightarrow> (string \<times> string) list" where
  "response_headers_dict hs =
     dict (map (\<lambda>line. (fst line,
                        join_values (map snd (filter (\<lambda>other. fst other = fst line) hs)))) hs)"

text \<open>\<^verbatim>\<open>x.get(key, default)\<close>: only a dictionary has the method.\<close>

fun py_get :: "json \<Rightarrow> string \<Rightarrow> json \<Rightarrow> exn + json" where
  "py_get (JObj kvs) key dflt =
     Inr (case map_of kvs key of Some v \<Rightarrow> v | None \<Rightarrow> dflt)"
| "py_get JNull key dflt = Inl (AttributeError ''NoneType object has no attribute get'')"
| "py_get (JBool b) key dflt = Inl (AttributeError ''bool object has no attribute get'')"
| "py_get (JInt i) key dflt = Inl (AttributeError ''int object has no attribute get'')"
| "py_get (JFloat f) key dflt = Inl (AttributeError ''float object has no attribute get'')"
| "py_get (JStr s) key dflt = Inl (AttributeError ''str object has no attribute get'')"
| "py_get (JArr xs) key dflt = Inl (AttributeError ''list object has no attribute get'')"

text \<open>
  \<^verbatim>\<open>models.extend(x)\<close>: a list gives its elements, a dictionary its keys, a string its
  characters; anything else is not iterable and the list is left as it was.
\<close>

fun list_extend :: "json list \<Rightarrow> json \<Rightarrow> exn + json list" where
  "list_extend models (JArr xs) = Inr (models @ xs)"
| "list_extend models (JObj kvs) = Inr (models @ map (\<lambda>kv. JStr (fst kv)) kvs)"
| "list_extend models (JStr s) = Inr (models @ map (\<lambda>ch. JStr [ch]) s)"
| "list_extend models JNull = Inl (TypeError ''NoneType object is not iterable'')"
| "list_extend models (JBool b) = Inl (TypeError ''bool object is not iterable'')"
| "list_extend models (JInt i) = Inl (TypeError ''int object is not iterable'')"
| "list_extend models (JFloat f) = Inl (TypeError ''float object is not iterable'')"

text \<open>The truth value Python's \<^verbatim>\<open>not\<close> tests.\<close>

fun truthy :: "json \<Rightarrow> bool" where
  "truthy JNull = False"
| "truthy (JBool b) = b"
| "truthy (JInt i) = (i \<noteq> 0)"
| "truthy (JFloat (Finite q)) = (q \<noteq> 0)"
| "truthy (JFloat PosInfinity) = True"
| "truthy (JFloat NegInfinity) = True"
| "truthy (JFloat NaN) = True"
| "truthy (JStr s) = (s \<noteq> [])"
| "truthy (JArr xs) = (xs \<noteq> [])"
| "truthy (JObj kvs) = (kvs \<noteq> [])"

section \<open>The shared HTTP client\<close>

text \<open>
  A part of a multipart form: an upload (file name, content, declared content type) or a
  plain string.
\<close>

datatype form_value =
    UploadFile string bytes "string option"
  | FormField string

type_synonym upload = "string \<times> bytes \<times> string option"

datatype payload =
    JsonBody json
  | FormBody "(string \<times> string) list" "(string \<times> upload) list"

text \<open>
  The three calls the handlers make on \<^verbatim>\<open>http_client\<close>: \<^verbatim>\<open>get(url, timeout=...)\<close>
  (the timeout in seconds, \<open>None\<close> for the client's default), \<^verbatim>\<open>post(url, ..., headers=...)\<close>
  and \<^verbatim>\<open>stream(method, url, json=..., headers=...)\<close>.
\<close>

datatype request =
    Get string "nat option"
  | Post string payload headers
  | Stream string string payload headers

text \<open>
  A complete response as the client hands it over: the status code, the header lines,
  \<open>content\<close> for \<^verbatim>\<open>resp.content\<close> (the body after the client has undone the content
  encoding the backend declared, so the bytes of the backend when it declared none), and
  \<open>json_of\<close> for what \<^verbatim>\<open>resp.json()\<close> returns or raises.
\<close>

record response =
  status_code :: int
  headers :: headers
  content :: bytes
  json_of :: "exn + json"

text \<open>
  A streamed response: the chunks \<^verbatim>\<open>aiter_bytes()\<close> delivers, in order, and the
  exception that ends the transfer early, if any.
\<close>

record stream_response =
  stream_status :: int
  stream_headers :: headers
  chunks :: "bytes list"
  stream_failure :: "exn option"

text \<open>
  The network is a parameter: the outcome of the \<open>n\<close>-th outbound call of a run, given
  the request.  The state threaded through the handlers is the list of calls made so far.
\<close>

record client =
  send :: "nat \<Rightarrow> request \<Rightarrow> exn + response"
  open_stream :: "nat \<Rightarrow> request \<Rightarrow> exn + stream_response"

type_synonym world = "request list"

definition http_call :: "client \<Rightarrow> request \<Rightarrow> world \<Rightarrow> (exn + response) \<times> world" where
  "http_call c rq w = (send c (length w) rq, w @ [rq])"

definition stream_call ::
  "client \<Rightarrow> request \<Rightarrow> world \<Rightarrow> (exn + stream_response) \<times> world" where
  "stream_call c rq w = (open_stream c (length w) rq, w @ [rq])"

text \<open>The base addresses of \<^verbatim>\<open>services/config.py\<close>.\<close>

record config =
  BERNARD_URL :: string
  VLLM_URL :: string
  WHISPER_URL :: string
  KOKORO_URL :: string

section \<open>Health check\<close>

record health =
  status :: string
  services :: "(string \<times> string) list"

definition status_of :: "response \<Rightarrow> string" where
  "status_of resp = (if status_code resp < 500 then ''up'' else ''error'')"

text \<open>
  One turn of the loop of \<^verbatim>\<open>health_check\<close>: the inner \<^verbatim>\<open>try\<close> probes the status path, its
  handler probes the root address, the outer handler records the backend as down.
\<close>

definition check_backend ::
  "client \<Rightarrow> health \<times> world \<Rightarrow> string \<times> string \<Rightarrow> health \<times> world" where
  "check_backend c hw backend =
     (let h = fst hw; w = snd hw; name = fst backend; url = snd backend;
          check_url = (if name = ''bernard'' then url @ ''/api/status'' else url @ ''/health'');
          first = http_call c (Get check_url (Some 2)) w
      in case fst first of
           Inr resp \<Rightarrow>
             (h\<lparr>services := dict_set name (status_of resp) (services h)\<rparr>, snd first)
         | Inl e1 \<Rightarrow>
             (let second = http_call c (Get url (Some 2)) (snd first)
              in case fst second of
                   Inr resp \<Rightarrow>
                     (h\<lparr>services := dict_set name (status_of resp) (services h)\<rparr>,
                      snd second)
                 | Inl e \<Rightarrow>
                     (h\<lparr>services := dict_set name (''down ('' @ str e @ '')'') (services h),
                        status := ''degraded''\<rparr>,
                      snd second)))"

definition backends :: "config \<Rightarrow> (string \<times> string) list" where
  "backends cfg =
     [(''bernard'', BERNARD_URL cfg), (''vllm'', VLLM_URL cfg),
      (''whisper'', WHISPER_URL cfg), (''kokoro'', KOKORO_URL cfg)]"

definition health_check :: "config \<Rightarrow> client \<Rightarrow> world \<Rightarrow> health \<times> world" where
  "health_check cfg c w =
     foldl (check_backend c) (\<lparr>status = ''ok'', services = []\<rparr>, w) (backends cfg)"

section \<open>Model catalogue\<close>

text \<open>The body of one \<^verbatim>\<open>try\<close> block of \<^verbatim>\<open>list_models\<close>, after the call has returned.\<close>

definition extend_from :: "exn + response \<Rightarrow> json list \<Rightarrow> exn + json list" where
  "extend_from outcome models =
     (case outcome of
        Inl e \<Rightarrow> Inl e
      | Inr resp \<Rightarrow>
          if status_code resp = 200 then
            (case json_of resp of
               Inl e \<Rightarrow> Inl e
             | Inr doc \<Rightarrow>
                 (case py_get doc ''data'' (JArr []) of
                    Inl e \<Rightarrow> Inl e
                  | Inr entries \<Rightarrow> list_extend models entries))
          else Inr models)"

text \<open>The block with its handler, which only logs a warning.\<close>

definition try_extend :: "exn + response \<Rightarrow> json list \<Rightarrow> json list" where
  "try_extend outcome models =
     (case extend_from outcome models of Inl e \<Rightarrow> models | Inr models' \<Rightarrow> models')"

text \<open>
  A handler ends by returning a value or by raising: an \<^verbatim>\<open>HTTPException\<close> it built itself
  or an exception nothing caught.
\<close>

datatype failure = HTTPException int string | Unhandled exn

definition list_models :: "config \<Rightarrow> client \<Rightarrow> world \<Rightarrow> (failure + json) \<times> world" where
  "list_models cfg c w =
     (let models0 = [];
          first = http_call c (Get (BERNARD_URL cfg @ ''/api/v1/models'') None) w;
          models1 = try_extend (fst first) models0;
          second = http_call c (Get (VLLM_URL cfg @ ''/v1/models'') None) (snd first);
          models2 = try_extend (fst second) models1;
          models3 = models2 @
            [JObj [(''id'', JStr ''whisper-1''), (''object'', JStr ''model''),
                   (''created'', JInt 1677649963), (''owned_by'', JStr ''openai'')]];
          models4 = models3 @
            [JObj [(''id'', JStr ''kokoro-v1.0''), (''object'', JStr ''model''),
                   (''created'', JInt 1677649963), (''owned_by'', JStr ''kokoro'')]]
      in (Inr (JObj [(''object'', JStr ''list''), (''data'', JArr models4)]), snd second))"

section \<open>Proxying handlers\<close>

text \<open>
  What a handler reads of the inbound request: its headers, what \<^verbatim>\<open>await request.json()\<close>
  returns or raises, and the parts of the multipart form in the order submitted.
\<close>

record inbound =
  in_headers :: headers
  in_json :: "exn + json"
  in_form :: "(string \<times> form_value) list"

text \<open>
  What a handler returns: a complete \<^verbatim>\<open>Response\<close> (content, status code, headers), or a
  \<^verbatim>\<open>StreamingResponse\<close> holding a generator that has not run yet and a media type.
  Running the generator gives the chunks it yields, the exception that stops it (if any)
  and the calls it made.
\<close>

type_synonym generator = "world \<Rightarrow> (bytes list \<times> exn option) \<times> world"

datatype reply =
    Response bytes int headers
  | StreamingResponse generator string

fun is_streaming :: "failure + reply \<Rightarrow> bool" where
  "is_streaming (Inr (StreamingResponse g mt)) = True"
| "is_streaming (Inr (Response b s h)) = False"
| "is_streaming (Inl f) = False"

text \<open>\<^verbatim>\<open>async for chunk in response.aiter_bytes(): yield chunk\<close>\<close>

fun yield_chunks :: "bytes list \<Rightarrow> bytes list" where
  "yield_chunks [] = []"
| "yield_chunks (chunk # rest) = chunk # yield_chunks rest"

definition stream_generator :: "client \<Rightarrow> string \<Rightarrow> json \<Rightarrow> headers \<Rightarrow> generator" where
  "stream_generator c target_url body hdrs w =
     (let opened = stream_call c (Stream ''POST'' target_url (JsonBody body) hdrs) w
      in case fst opened of
           Inl e \<Rightarrow> (([], Some e), snd opened)
         | Inr response \<Rightarrow>
             ((yield_chunks (chunks response), stream_failure response), snd opened))"

definition chat_request :: "config \<Rightarrow> json \<Rightarrow> headers \<Rightarrow> request" where
  "chat_request cfg body hdrs =
     Post (BERNARD_URL cfg @ ''/api/v1/chat/completions'') (JsonBody body) hdrs"

definition chat_completions ::
  "config \<Rightarrow> client \<Rightarrow> inbound \<Rightarrow> world \<Rightarrow> (failure + reply) \<times> world" where
  "chat_completions cfg c request w =
     (case in_json request of
        Inl e \<Rightarrow> (Inl (Unhandled e), w)
      | Inr body \<Rightarrow>
          (case py_get body ''model'' JNull of
             Inl e \<Rightarrow> (Inl (Unhandled e), w)
           | Inr logged \<Rightarrow>
               (case py_get body ''stream'' (JBool False) of
                  Inl e \<Rightarrow> (Inl (Unhandled e), w)
                | Inr stream_requested \<Rightarrow>
                    (let target_url = BERNARD_URL cfg @ ''/api/v1/chat/completions''
                     in if \<not> truthy stream_requested then
                          (let call = http_call c
                                 (Post target_url (JsonBody body) (request_headers_dict (in_headers request))) w
                           in case fst call of
                                Inr resp \<Rightarrow>
                                  (Inr (Response (content resp) (status_code resp)
                                          (response_headers_dict (headers resp))), snd call)
                              | Inl e \<Rightarrow> (Inl (HTTPException 500 (str e)), snd call))
                        else
                          (Inr (StreamingResponse
                                  (stream_generator c target_url body (request_headers_dict (in_headers request)))
                                  ''text/event-stream''), w)))))"

definition embeddings ::
  "config \<Rightarrow> client \<Rightarrow> inbound \<Rightarrow> world \<Rightarrow> (failure + reply) \<times> world" where
  "embeddings cfg c request w =
     (case in_json request of
        Inl e \<Rightarrow> (Inl (Unhandled e), w)
      | Inr body \<Rightarrow>
          (case py_get body ''model'' JNull of
             Inl e \<Rightarrow> (Inl (Unhandled e), w)
           | Inr logged \<Rightarrow>
               (let target_url = VLLM_URL cfg @ ''/v1/embeddings'';
                    call = http_call c
                      (Post target_url (JsonBody body) (request_headers_dict (in_headers request))) w
                in case fst call of
                     Inr resp \<Rightarrow>
                       (Inr (Response (content resp) (status_code resp)
                               (response_headers_dict (headers resp))), snd call)
                   | Inl e \<Rightarrow> (Inl (HTTPException 500 (str e)), snd call))))"

text \<open>
  The loop of \<^verbatim>\<open>transcriptions\<close> over the items of the form: an upload goes to
  \<^verbatim>\<open>files\<close>, anything else to \<^verbatim>\<open>data\<close>, each under its field name.
\<close>

fun split_form ::
  "(string \<times> form_value) list \<Rightarrow> (string \<times> upload) list \<times> (string \<times> string) list
     \<Rightarrow> (string \<times> upload) list \<times> (string \<times> string) list" where
  "split_form [] fd = fd"
| "split_form ((key, UploadFile filename bytes ctype) # rest) fd =
     split_form rest (dict_set key (filename, bytes, ctype) (fst fd), snd fd)"
| "split_form ((key, FormField v) # rest) fd =
     split_form rest (fst fd, dict_set key v (snd fd))"

text \<open>
  \<^verbatim>\<open>form_data.items()\<close>: the form is a multi-dictionary whose \<^verbatim>\<open>items()\<close> shows each
  name once, with the value submitted last.
\<close>

definition form_items :: "(string \<times> form_value) list \<Rightarrow> (string \<times> form_value) list" where
  "form_items form = dict form"

definition transcription_request :: "config \<Rightarrow> inbound \<Rightarrow> request" where
  "transcription_request cfg request =
     (let fd = split_form (form_items (in_form request)) ([], [])
      in Post (WHISPER_URL cfg @ ''/v1/audio/transcriptions'')
           (FormBody (snd fd) (fst fd)) (request_headers_dict (in_headers request)))"

definition transcriptions ::
  "config \<Rightarrow> client \<Rightarrow> inbound \<Rightarrow> world \<Rightarrow> (failure + reply) \<times> world" where
  "transcriptions cfg c request w =
     (let fd = split_form (form_items (in_form request)) ([], []);
          files = fst fd; data = snd fd;
          target_url = WHISPER_URL cfg @ ''/v1/audio/transcriptions'';
          call = http_call c (Post target_url (FormBody data files) (request_headers_dict (in_headers request))) w
      in case fst call of
           Inr resp \<Rightarrow>
             (Inr (Response (content resp) (status_code resp) (response_headers_dict (headers resp))), snd call)
         | Inl e \<Rightarrow> (Inl (HTTPException 500 (str e)), snd call))"

definition speech ::
  "config \<Rightarrow> client \<Rightarrow> inbound \<Rightarrow> world \<Rightarrow> (failure + reply) \<times> world" where
  "speech cfg c request w =
     (case in_json request of
        Inl e \<Rightarrow> (Inl (Unhandled e), w)
      | Inr body \<Rightarrow>
          (case py_get body ''voice'' JNull of
             Inl e \<Rightarrow> (Inl (Unhandled e), w)
           | Inr logged \<Rightarrow>
               (let target_url = KOKORO_URL cfg @ ''/v1/audio/speech'';
                    call = http_call c
                      (Post target_url (JsonBody body) (request_headers_dict (in_headers request))) w
                in case fst call of
                     Inr resp \<Rightarrow>
                       (Inr (Response (content resp) (status_code resp)
                               (response_headers_dict (headers resp))), snd call)
                   | Inl e \<Rightarrow> (Inl (HTTPException 500 (str e)), snd call))))"

section \<open>The parts of a form, by kind\<close>

text \<open>
  The uploads and the plain fields of a list of form parts, each list in the order of the
  parts.  The theorems on \<^verbatim>\<open>transcriptions\<close> compare the outbound request with them.
\<close>

fun file_parts :: "(string \<times> form_value) list \<Rightarrow> (string \<times> upload) list" where
  "file_parts [] = []"
| "file_parts ((key, UploadFile filename bytes ctype) # rest) =
     (key, (filename, bytes, ctype)) # file_parts rest"
| "file_parts ((key, FormField v) # rest) = file_parts rest"

fun scalar_fields :: "(string \<times> form_value) list \<Rightarrow> (string \<times> string) list" where
  "scalar_fields [] = []"
| "scalar_fields ((key, UploadFile filename bytes ctype) # rest) = scalar_fields rest"
| "scalar_fields ((key, FormField v) # rest) = (key, v) # scalar_fields rest"

section \<open>Names used in the statements\<close>



text \<open>
  The outbound calls of \<^verbatim>\<open>embeddings\<close>, \<^verbatim>\<open>speech\<close> and of the generator of
  \<^verbatim>\<open>chat_completions\<close>, as the handlers build them.
\<close>

definition embeddings_request :: "config \<Rightarrow> json \<Rightarrow> headers \<Rightarrow> request" where
  "embeddings_request cfg body hdrs = Post (VLLM_URL cfg @ ''/v1/embeddings'') (JsonBody body) hdrs"

definition speech_request :: "config \<Rightarrow> json \<Rightarrow> headers \<Rightarrow> request" where
  "speech_request cfg body hdrs = Post (KOKORO_URL cfg @ ''/v1/audio/speech'') (JsonBody body) hdrs"

definition chat_stream_request :: "config \<Rightarrow> json \<Rightarrow> headers \<Rightarrow> request" where
  "chat_stream_request cfg body hdrs =
     Stream ''POST'' (BERNARD_URL cfg @ ''/api/v1/chat/completions'') (JsonBody body) hdrs"

text \<open>
  \<^verbatim>\<open>body.get("stream", False)\<close> on a body that is a dictionary.
\<close>

definition stream_flag :: "(string \<times> json) list \<Rightarrow> json" where
  "stream_flag kvs = (case map_of kvs ''stream'' of None \<Rightarrow> JBool False | Some v \<Rightarrow> v)"

text \<open>
  Iterating the body of a reply from the calls made so far: defined for a
  \<^verbatim>\<open>StreamingResponse\<close> only, whose generator runs when the server sends the body.
\<close>

fun run_stream ::
  "failure + reply \<Rightarrow> world \<Rightarrow> ((bytes list \<times> exn option) \<times> world) option" where
  "run_stream (Inr (StreamingResponse g mt)) w = Some (g w)"
| "run_stream (Inr (Response b s h)) w = None"
| "run_stream (Inl f) w = None"

section \<open>Scenarios\<close>

text \<open>
  Concrete configurations, backends and requests on which the theorems below are
  evaluated.  The addresses are the defaults of \<^verbatim>\<open>services/config.py\<close>.
\<close>

definition default_config :: config where
  "default_config =
     \<lparr>BERNARD_URL = ''http://localhost:3000'', VLLM_URL = ''http://localhost:8001'',
      WHISPER_URL = ''http://localhost:8002'', KOKORO_URL = ''http://localhost:8003''\<rparr>"

definition plain_response :: "int \<Rightarrow> bytes \<Rightarrow> response" where
  "plain_response code body =
     \<lparr>status_code = code, headers = [(''content-type'', ''application/json'')],
      content = body, json_of = Inl (JSONDecodeError ''Expecting value'')\<rparr>"

definition refused :: exn where
  "refused = TransportError ''All connection attempts failed''"

definition model_entry :: "string \<Rightarrow> json" where
  "model_entry name = JObj [(''id'', JStr name), (''object'', JStr ''model'')]"

definition catalogue_response :: "json list \<Rightarrow> response" where
  "catalogue_response entries =
     \<lparr>status_code = 200, headers = [(''content-type'', ''application/json'')],
      content = [],
      json_of = Inr (JObj [(''object'', JStr ''list''), (''data'', JArr entries)])\<rparr>"

text \<open>The chat backend lists A and B, the embeddings backend lists C.\<close>

definition both_catalogues :: client where
  "both_catalogues =
     \<lparr>send = (\<lambda>n rq. if rq = Get ''http://localhost:3000/api/v1/models'' None
                      then Inr (catalogue_response [model_entry ''A'', model_entry ''B''])
                      else Inr (catalogue_response [model_entry ''C''])),
      open_stream = (\<lambda>n rq. Inl refused)\<rparr>"

text \<open>The chat backend refuses the connection, the embeddings backend lists C.\<close>

definition chat_unreachable :: client where
  "chat_unreachable =
     \<lparr>send = (\<lambda>n rq. if rq = Get ''http://localhost:3000/api/v1/models'' None
                      then Inl refused
                      else Inr (catalogue_response [model_entry ''C''])),
      open_stream = (\<lambda>n rq. Inl refused)\<rparr>"


text \<open>
  The transcription backend answers 503 on its status path, as the \<^verbatim>\<open>/health\<close> route of
  \<^verbatim>\<open>services/whisper_server.py\<close> does when its binary or model is missing; everything else
  answers 200.
\<close>

definition whisper_failing :: client where
  "whisper_failing =
     \<lparr>send = (\<lambda>n rq. if rq = Get ''http://localhost:8002/health'' (Some 2)
                      then Inr (plain_response 503 ''unavailable'')
                      else Inr (plain_response 200 ''fine'')),
      open_stream = (\<lambda>n rq. Inl refused)\<rparr>"

text \<open>
  The embeddings backend has no \<^verbatim>\<open>/health\<close> route (404) and answers 503 at its root
  address; everything else answers 200.
\<close>

definition status_path_missing :: client where
  "status_path_missing =
     \<lparr>send = (\<lambda>n rq. if rq = Get ''http://localhost:8001/health'' (Some 2)
                      then Inr (plain_response 404 ''Not Found'')
                      else if rq = Get ''http://localhost:8001'' (Some 2)
                      then Inr (plain_response 503 ''unavailable'')
                      else Inr (plain_response 200 ''fine'')),
      open_stream = (\<lambda>n rq. Inl refused)\<rparr>"

text \<open>
  The overloaded body of the specification (an object with the one key \<open>error\<close>), and a
  backend that answers every call with it under status 503.
\<close>

definition overloaded_body :: bytes where
  "overloaded_body = ''{'' @ [CHR 0x22] @ ''error'' @ [CHR 0x22] @ '':'' @ [CHR 0x22] @
     ''overloaded'' @ [CHR 0x22] @ ''}''"

definition overloaded_backend :: client where
  "overloaded_backend =
     \<lparr>send = (\<lambda>n rq. Inr (plain_response 503 overloaded_body)),
      open_stream = (\<lambda>n rq. Inl refused)\<rparr>"

text \<open>
  A backend that refuses every connection.
\<close>

definition dead_client :: client where
  "dead_client = \<lparr>send = (\<lambda>n rq. Inl refused), open_stream = (\<lambda>n rq. Inl refused)\<rparr>"

text \<open>
  Inbound requests with a JSON body.
\<close>

definition json_headers :: headers where
  "json_headers = [(''content-type'', ''application/json'')]"

definition json_inbound :: "json \<Rightarrow> inbound" where
  "json_inbound body = \<lparr>in_headers = json_headers, in_json = Inr body, in_form = []\<rparr>"

text \<open>
  A chat backend that streams four chunks, one of them empty, and declares a JSON content
  type.
\<close>

definition token_stream :: client where
  "token_stream =
     \<lparr>send = (\<lambda>n rq. Inl refused),
      open_stream = (\<lambda>n rq. Inr \<lparr>stream_status = 200, stream_headers = json_headers,
                                  chunks = [''data: Hel'', ''lo'', [], ''data: [DONE]''],
                                  stream_failure = None\<rparr>)\<rparr>"

definition plain_chat :: inbound where
  "plain_chat = json_inbound (JObj [(''model'', JStr ''bernard''), (''input'', JStr ''hi'')])"

definition explicit_false_chat :: inbound where
  "explicit_false_chat =
     json_inbound (JObj [(''model'', JStr ''bernard''), (''stream'', JBool False)])"



definition streaming_chat :: inbound where
  "streaming_chat = json_inbound (JObj [(''model'', JStr ''bernard''), (''stream'', JBool True)])"

text \<open>
  Inbound transcription forms: one without a \<open>language\<close> field and with a field the
  backend does not know, one that repeats a field name.
\<close>

definition form_inbound :: "(string \<times> form_value) list \<Rightarrow> inbound" where
  "form_inbound form =
     \<lparr>in_headers = [(''content-type'', ''multipart/form-data; boundary=xyz'')],
      in_json = Inl (JSONDecodeError ''Expecting value''), in_form = form\<rparr>"

definition no_language_form :: "(string \<times> form_value) list" where
  "no_language_form =
     [(''file'', UploadFile ''a.wav'' ''RIFF'' (Some ''audio/wav'')),
      (''model'', FormField ''whisper-1''), (''custom_flag'', FormField ''1'')]"

definition repeated_field_form :: "(string \<times> form_value) list" where
  "repeated_field_form =
     [(''file'', UploadFile ''a.wav'' ''RIFF'' (Some ''audio/wav'')),
      (''timestamp_granularities[]'', FormField ''word''),
      (''timestamp_granularities[]'', FormField ''segment'')]"




section \<open>Auxiliary facts\<close>

lemma yield_chunks_id: "yield_chunks cs = cs"
  by (induction cs) simp_all

lemma dict_set_fresh: "k \<notin> fst ` set d \<Longrightarrow> dict_set k v d = d @ [(k, v)]"
  by (induction d) auto

lemma dict_from_distinct: "distinct (map fst (d @ xs)) \<Longrightarrow> dict_from d xs = d @ xs"
proof (induction xs arbitrary: d)
  case Nil
  then show ?case by simp
next
  case (Cons x xs)
  obtain k v where x: "x = (k, v)" by (cases x)
  from Cons.prems x have fresh: "k \<notin> fst ` set d" by auto
  from Cons.prems x have "distinct (map fst ((d @ [(k, v)]) @ xs))" by auto
  then have "dict_from (d @ [(k, v)]) xs = (d @ [(k, v)]) @ xs" by (rule Cons.IH)
  with fresh x show ?case by (simp add: dict_set_fresh)
qed

lemma dict_distinct: "distinct (map fst xs) \<Longrightarrow> dict xs = xs"
  using dict_from_distinct [of "[]" xs] by (simp add: dict_def)

lemma map_of_dict_set: "map_of (dict_set k v d) = (map_of d)(k \<mapsto> v)"
  by (induction d) (auto simp: fun_eq_iff)

lemma keys_dict_set: "fst ` set (dict_set k v d) = insert k (fst ` set d)"
proof -
  have "dom (map_of (dict_set k v d)) = insert k (dom (map_of d))"
    by (simp add: map_of_dict_set)
  then show ?thesis by (simp add: dom_map_of_conv_image_fst)
qed

lemma distinct_dict_set: "distinct (map fst d) \<Longrightarrow> distinct (map fst (dict_set k v d))"
  by (induction d) (auto simp: keys_dict_set)

lemma distinct_dict_from: "distinct (map fst d) \<Longrightarrow> distinct (map fst (dict_from d xs))"
  by (induction d xs rule: dict_from.induct) (simp_all add: distinct_dict_set)

lemma keys_dict_from: "fst ` set (dict_from d xs) = fst ` set d \<union> fst ` set xs"
  by (induction d xs rule: dict_from.induct) (auto simp: keys_dict_set)

lemma map_of_dict_from:
  "map_of (dict_from d xs) k = (case map_of (rev xs) k of Some v \<Rightarrow> Some v | None \<Rightarrow> map_of d k)"
  by (induction d xs rule: dict_from.induct)
     (auto simp: map_of_dict_set map_add_def split: option.splits)

lemma map_of_dict: "map_of (dict xs) = map_of (rev xs)"
  by (rule ext) (simp add: dict_def map_of_dict_from split: option.splits)



lemma request_headers_dict_distinct:
  "distinct (map fst hs) \<Longrightarrow> request_headers_dict hs = hs"
proof -
  assume d: "distinct (map fst hs)"
  have "map_of hs (fst line) = Some (snd line)" if "line \<in> set hs" for line
    using that d map_of_is_SomeI [of hs "fst line" "snd line"] by simp
  then have "map (\<lambda>line. (fst line,
          case map_of hs (fst line) of Some v \<Rightarrow> v | None \<Rightarrow> snd line)) hs = hs"
    by (intro map_idI) simp
  with d show ?thesis by (simp add: request_headers_dict_def dict_distinct)
qed



lemmas header_dict_defs = request_headers_dict_def response_headers_dict_def dict_def

lemma keys_file_parts: "fst ` set (file_parts xs) \<subseteq> fst ` set xs"
  by (induction xs rule: file_parts.induct) auto

lemma keys_scalar_fields: "fst ` set (scalar_fields xs) \<subseteq> fst ` set xs"
  by (induction xs rule: scalar_fields.induct) auto

lemma keys_parts_fields:
  "fst ` set (scalar_fields xs) \<union> fst ` set (file_parts xs) = fst ` set xs"
  by (induction xs rule: file_parts.induct) auto

lemma split_form_distinct:
  "distinct (map fst xs) \<Longrightarrow> fst ` set xs \<inter> (fst ` set (fst fd) \<union> fst ` set (snd fd)) = {} \<Longrightarrow>
   split_form xs fd = (fst fd @ file_parts xs, snd fd @ scalar_fields xs)"
proof (induction xs fd rule: split_form.induct)
  case (1 fd)
  then show ?case by simp
next
  case (2 key filename bytes ctype rest fd)
  from "2.prems" have fresh: "key \<notin> fst ` set (fst fd)" by auto
  have "split_form rest (dict_set key (filename, bytes, ctype) (fst fd), snd fd) =
        (fst (dict_set key (filename, bytes, ctype) (fst fd), snd fd) @ file_parts rest,
         snd (dict_set key (filename, bytes, ctype) (fst fd), snd fd) @ scalar_fields rest)"
    using "2.prems" by (intro "2.IH") (auto simp: keys_dict_set)
  with fresh show ?case by (simp add: dict_set_fresh)
next
  case (3 key v rest fd)
  from "3.prems" have fresh: "key \<notin> fst ` set (snd fd)" by auto
  have "split_form rest (fst fd, dict_set key v (snd fd)) =
        (fst (fst fd, dict_set key v (snd fd)) @ file_parts rest,
         snd (fst fd, dict_set key v (snd fd)) @ scalar_fields rest)"
    using "3.prems" by (intro "3.IH") (auto simp: keys_dict_set)
  with fresh show ?case by (simp add: dict_set_fresh)
qed

lemma split_form_items:
  "split_form (form_items form) ([], []) =
     (file_parts (form_items form), scalar_fields (form_items form))"
proof -
  have "distinct (map fst (form_items form))"
    by (simp add: form_items_def dict_def distinct_dict_from)
  then show ?thesis
    using split_form_distinct [of "form_items form" "([], [])"] by simp
qed

lemma list_extend_append:
  "(case list_extend models x of Inl e \<Rightarrow> models | Inr m \<Rightarrow> m) =
   models @ (case list_extend [] x of Inl e \<Rightarrow> [] | Inr m \<Rightarrow> m)"
  by (cases x) simp_all

lemma try_extend_append: "try_extend outcome models = models @ try_extend outcome []"
proof (cases outcome)
  case (Inl e)
  then show ?thesis by (simp add: try_extend_def extend_from_def)
next
  case outcome: (Inr resp)
  show ?thesis
  proof (cases "status_code resp = 200")
    case False
    with outcome show ?thesis by (simp add: try_extend_def extend_from_def)
  next
    case ok: True
    show ?thesis
    proof (cases "json_of resp")
      case (Inl e)
      with outcome ok show ?thesis by (simp add: try_extend_def extend_from_def)
    next
      case doc: (Inr doc)
      show ?thesis
      proof (cases "py_get doc ''data'' (JArr [])")
        case (Inl e)
        with outcome ok doc show ?thesis by (simp add: try_extend_def extend_from_def)
      next
        case (Inr entries)
        with outcome ok doc show ?thesis
          by (simp add: try_extend_def extend_from_def list_extend_append [of models])
      qed
    qed
  qed
qed

lemma list_models_split:
  "list_models cfg c w =
     (Inr (JObj [(''object'', JStr ''list''),
               (''data'', JArr (try_extend (send c (length w) (Get (BERNARD_URL cfg @ ''/api/v1/models'') None)) [] @
                   try_extend (send c (Suc (length w)) (Get (VLLM_URL cfg @ ''/v1/models'') None)) [] @
                   [JObj [(''id'', JStr ''whisper-1''), (''object'', JStr ''model''),
                         (''created'', JInt 1677649963), (''owned_by'', JStr ''openai'')],
                    JObj [(''id'', JStr ''kokoro-v1.0''), (''object'', JStr ''model''),
                         (''created'', JInt 1677649963), (''owned_by'', JStr ''kokoro'')]]))]),
      w @ [Get (BERNARD_URL cfg @ ''/api/v1/models'') None, Get (VLLM_URL cfg @ ''/v1/models'') None])"
proof -
  have "try_extend r2 (try_extend r1 []) = try_extend r1 [] @ try_extend r2 []" for r1 r2
    by (rule try_extend_append)
  then show ?thesis
    by (simp add: list_models_def Let_def http_call_def)
qed

lemma try_extend_entries:
  "status_code resp = 200 \<Longrightarrow> json_of resp = Inr (JObj kvs) \<Longrightarrow>
   map_of kvs ''data'' = Some (JArr entries) \<Longrightarrow> try_extend (Inr resp) [] = entries"
  by (simp add: try_extend_def extend_from_def)

lemmas health_defs = health_check_def backends_def default_config_def check_backend_def
  http_call_def status_of_def plain_response_def

lemma chat_buffered:
  "in_json rq = Inr (JObj kvs) \<Longrightarrow> \<not> truthy (stream_flag kvs) \<Longrightarrow>
   chat_completions cfg c rq w =
     (case send c (length w) (chat_request cfg (JObj kvs) (request_headers_dict (in_headers rq))) of
        Inr resp \<Rightarrow> Inr (Response (content resp) (status_code resp) (response_headers_dict (headers resp)))
      | Inl e \<Rightarrow> Inl (HTTPException 500 (str e)),
      w @ [chat_request cfg (JObj kvs) (request_headers_dict (in_headers rq))])"
  by (simp add: chat_completions_def stream_flag_def chat_request_def http_call_def Let_def
        split: sum.splits)

lemma chat_streaming:
  "in_json rq = Inr (JObj kvs) \<Longrightarrow> truthy (stream_flag kvs) \<Longrightarrow>
   chat_completions cfg c rq w =
     (Inr (StreamingResponse
             (stream_generator c (BERNARD_URL cfg @ ''/api/v1/chat/completions'') (JObj kvs)
                (request_headers_dict (in_headers rq)))
             ''text/event-stream''), w)"
  by (simp add: chat_completions_def stream_flag_def)

lemma embeddings_run:
  "in_json rq = Inr (JObj kvs) \<Longrightarrow>
   embeddings cfg c rq w =
     (case send c (length w) (embeddings_request cfg (JObj kvs) (request_headers_dict (in_headers rq))) of
        Inr resp \<Rightarrow> Inr (Response (content resp) (status_code resp) (response_headers_dict (headers resp)))
      | Inl e \<Rightarrow> Inl (HTTPException 500 (str e)),
      w @ [embeddings_request cfg (JObj kvs) (request_headers_dict (in_headers rq))])"
  by (simp add: embeddings_def embeddings_request_def http_call_def Let_def split: sum.splits)

lemma speech_run:
  "in_json rq = Inr (JObj kvs) \<Longrightarrow>
   speech cfg c rq w =
     (case send c (length w) (speech_request cfg (JObj kvs) (request_headers_dict (in_headers rq))) of
        Inr resp \<Rightarrow> Inr (Response (content resp) (status_code resp) (response_headers_dict (headers resp)))
      | Inl e \<Rightarrow> Inl (HTTPException 500 (str e)),
      w @ [speech_request cfg (JObj kvs) (request_headers_dict (in_headers rq))])"
  by (simp add: speech_def speech_request_def http_call_def Let_def split: sum.splits)

lemma transcriptions_run:
  "transcriptions cfg c rq w =
     (case send c (length w) (transcription_request cfg rq) of
        Inr resp \<Rightarrow> Inr (Response (content resp) (status_code resp) (response_headers_dict (headers resp)))
      | Inl e \<Rightarrow> Inl (HTTPException 500 (str e)),
      w @ [transcription_request cfg rq])"
  by (simp add: transcriptions_def transcription_request_def http_call_def Let_def
        split: sum.splits)

lemma stream_generator_run:
  "stream_generator c url body hdrs w =
     (case open_stream c (length w) (Stream ''POST'' url (JsonBody body) hdrs) of
        Inl e \<Rightarrow> ([], Some e)
      | Inr sr \<Rightarrow> (chunks sr, stream_failure sr),
      w @ [Stream ''POST'' url (JsonBody body) hdrs])"
  by (simp add: stream_generator_def stream_call_def Let_def yield_chunks_id split: sum.splits)

lemma transcription_request_parts:
  "transcription_request cfg rq =
     Post (WHISPER_URL cfg @ ''/v1/audio/transcriptions'')
       (FormBody (scalar_fields (form_items (in_form rq))) (file_parts (form_items (in_form rq))))
       (request_headers_dict (in_headers rq))"
  by (simp add: transcription_request_def split_form_items Let_def)

section \<open>Health aggregation\<close>

text \<open>
  Claim C1: the aggregate status is \<open>degraded\<close> if any per-backend record is not \<open>up\<close>,
  and \<open>ok\<close> otherwise.  The handler sets \<open>degraded\<close> only in the branch that records a
  backend as down; a backend recorded as \<open>error\<close> leaves the aggregate \<open>ok\<close>.  With the
  transcription backend answering 503 on its status path, the report carries
  \<open>whisper: error\<close> under the aggregate status \<open>ok\<close>.
\<close>

theorem health_ok_while_backend_in_error:
  "fst (health_check default_config whisper_failing []) =
     \<lparr>status = ''ok'',
      services = [(''bernard'', ''up''), (''vllm'', ''up''), (''whisper'', ''error''),
                  (''kokoro'', ''up'')]\<rparr>"
  by (simp add: health_defs whisper_failing_def)

text \<open>
  Claim C6: a failure of the probe of the status path, a non-matching path included, is
  followed by a probe of the root address.  The handler falls back only when the first
  probe raises; a 404 from a backend without the route is an answer, classified \<open>up\<close>, and
  the root address (which would answer 503 here) is never probed: the run makes four
  calls, one per backend.
\<close>

theorem health_no_fallback_on_missing_path:
  "health_check default_config status_path_missing [] =
     (\<lparr>status = ''ok'',
       services = [(''bernard'', ''up''), (''vllm'', ''up''), (''whisper'', ''up''),
                   (''kokoro'', ''up'')]\<rparr>,
      [Get ''http://localhost:3000/api/status'' (Some 2),
       Get ''http://localhost:8001/health'' (Some 2),
       Get ''http://localhost:8002/health'' (Some 2),
       Get ''http://localhost:8003/health'' (Some 2)])"
  by (simp add: health_defs status_path_missing_def)

section \<open>Model aggregation\<close>

text \<open>
  Claim C2: \<^verbatim>\<open>GET /v1/models\<close> returns the chat backend's entries in the order received,
  then the embeddings backend's entries in the order received, then \<open>whisper-1\<close> and
  \<open>kokoro-v1.0\<close>; when the chat backend is unreachable, the embeddings backend's entries
  followed by the two synthetic ones.  A backend's entries are the list under \<open>data\<close> of
  its 200 answer.  The returned document is written out in full.
\<close>

theorem list_models_order:
  "(send c (length w) (Get (BERNARD_URL cfg @ ''/api/v1/models'') None) = Inr chat \<and>
    status_code chat = 200 \<and> json_of chat = Inr (JObj chat_doc) \<and>
    map_of chat_doc ''data'' = Some (JArr chat_entries) \<and>
    send c (Suc (length w)) (Get (VLLM_URL cfg @ ''/v1/models'') None) = Inr emb \<and>
    status_code emb = 200 \<and> json_of emb = Inr (JObj emb_doc) \<and>
    map_of emb_doc ''data'' = Some (JArr emb_entries)
    \<longrightarrow> fst (list_models cfg c w) =
          Inr (JObj [(''object'', JStr ''list''),
               (''data'', JArr (chat_entries @ emb_entries @
                   [JObj [(''id'', JStr ''whisper-1''), (''object'', JStr ''model''),
                         (''created'', JInt 1677649963), (''owned_by'', JStr ''openai'')],
                    JObj [(''id'', JStr ''kokoro-v1.0''), (''object'', JStr ''model''),
                         (''created'', JInt 1677649963), (''owned_by'', JStr ''kokoro'')]]))]))
   \<and>
   (send c (length w) (Get (BERNARD_URL cfg @ ''/api/v1/models'') None) = Inl e \<and>
    send c (Suc (length w)) (Get (VLLM_URL cfg @ ''/v1/models'') None) = Inr emb \<and>
    status_code emb = 200 \<and> json_of emb = Inr (JObj emb_doc) \<and>
    map_of emb_doc ''data'' = Some (JArr emb_entries)
    \<longrightarrow> fst (list_models cfg c w) =
          Inr (JObj [(''object'', JStr ''list''),
               (''data'', JArr (emb_entries @
                   [JObj [(''id'', JStr ''whisper-1''), (''object'', JStr ''model''),
                         (''created'', JInt 1677649963), (''owned_by'', JStr ''openai'')],
                    JObj [(''id'', JStr ''kokoro-v1.0''), (''object'', JStr ''model''),
                         (''created'', JInt 1677649963), (''owned_by'', JStr ''kokoro'')]]))]))"
proof (intro conjI impI)
  assume "send c (length w) (Get (BERNARD_URL cfg @ ''/api/v1/models'') None) = Inr chat \<and>
    status_code chat = 200 \<and> json_of chat = Inr (JObj chat_doc) \<and>
    map_of chat_doc ''data'' = Some (JArr chat_entries) \<and>
    send c (Suc (length w)) (Get (VLLM_URL cfg @ ''/v1/models'') None) = Inr emb \<and>
    status_code emb = 200 \<and> json_of emb = Inr (JObj emb_doc) \<and>
    map_of emb_doc ''data'' = Some (JArr emb_entries)"
  then show "fst (list_models cfg c w) =
          Inr (JObj [(''object'', JStr ''list''),
               (''data'', JArr (chat_entries @ emb_entries @
                   [JObj [(''id'', JStr ''whisper-1''), (''object'', JStr ''model''),
                         (''created'', JInt 1677649963), (''owned_by'', JStr ''openai'')],
                    JObj [(''id'', JStr ''kokoro-v1.0''), (''object'', JStr ''model''),
                         (''created'', JInt 1677649963), (''owned_by'', JStr ''kokoro'')]]))])"
    by (simp add: list_models_split try_extend_entries)
next
  assume "send c (length w) (Get (BERNARD_URL cfg @ ''/api/v1/models'') None) = Inl e \<and>
    send c (Suc (length w)) (Get (VLLM_URL cfg @ ''/v1/models'') None) = Inr emb \<and>
    status_code emb = 200 \<and> json_of emb = Inr (JObj emb_doc) \<and>
    map_of emb_doc ''data'' = Some (JArr emb_entries)"
  then show "fst (list_models cfg c w) =
          Inr (JObj [(''object'', JStr ''list''),
               (''data'', JArr (emb_entries @
                   [JObj [(''id'', JStr ''whisper-1''), (''object'', JStr ''model''),
                         (''created'', JInt 1677649963), (''owned_by'', JStr ''openai'')],
                    JObj [(''id'', JStr ''kokoro-v1.0''), (''object'', JStr ''model''),
                         (''created'', JInt 1677649963), (''owned_by'', JStr ''kokoro'')]]))])"
    by (simp add: list_models_split try_extend_entries) (simp add: try_extend_def extend_from_def)
qed

text \<open>
  The two scenarios of the specification: chat lists A and B and embeddings lists C; chat
  is unreachable and embeddings lists C.
\<close>

theorem list_models_order_witness:
  "fst (list_models default_config both_catalogues []) =
     Inr (JObj [(''object'', JStr ''list''),
               (''data'', JArr
                  [JObj [(''id'', JStr ''A''), (''object'', JStr ''model'')],
                   JObj [(''id'', JStr ''B''), (''object'', JStr ''model'')],
                   JObj [(''id'', JStr ''C''), (''object'', JStr ''model'')],
                   JObj [(''id'', JStr ''whisper-1''), (''object'', JStr ''model''),
                         (''created'', JInt 1677649963), (''owned_by'', JStr ''openai'')],
                   JObj [(''id'', JStr ''kokoro-v1.0''), (''object'', JStr ''model''),
                         (''created'', JInt 1677649963), (''owned_by'', JStr ''kokoro'')]])]) \<and>
   fst (list_models default_config chat_unreachable []) =
     Inr (JObj [(''object'', JStr ''list''),
               (''data'', JArr
                  [JObj [(''id'', JStr ''C''), (''object'', JStr ''model'')],
                   JObj [(''id'', JStr ''whisper-1''), (''object'', JStr ''model''),
                         (''created'', JInt 1677649963), (''owned_by'', JStr ''openai'')],
                   JObj [(''id'', JStr ''kokoro-v1.0''), (''object'', JStr ''model''),
                         (''created'', JInt 1677649963), (''owned_by'', JStr ''kokoro'')]])])"
  using list_models_order [of both_catalogues "[]" default_config
          "catalogue_response [model_entry ''A'', model_entry ''B'']"
          "[(''object'', JStr ''list''), (''data'', JArr [model_entry ''A'', model_entry ''B''])]"
          "[model_entry ''A'', model_entry ''B'']"
          "catalogue_response [model_entry ''C'']"
          "[(''object'', JStr ''list''), (''data'', JArr [model_entry ''C''])]"
          "[model_entry ''C'']" refused]
        list_models_order [of chat_unreachable "[]" default_config
          "catalogue_response []" "[]" "[]"
          "catalogue_response [model_entry ''C'']"
          "[(''object'', JStr ''list''), (''data'', JArr [model_entry ''C''])]"
          "[model_entry ''C'']" refused]
  by (simp add: both_catalogues_def chat_unreachable_def default_config_def
        catalogue_response_def model_entry_def)




section \<open>Buffered relay\<close>




text \<open>
  The buffered calls map a raised exception to the uniform 500: on chat completions
  whose stream value is absent or falsy, on embeddings, on transcription and on speech, a
  backend call that raises gives \<^verbatim>\<open>HTTPException(500)\<close> with the exception's text as detail,
  after exactly one call.
\<close>

theorem buffered_failure_is_500_once:
  "(in_json rq = Inr (JObj kvs) \<and> \<not> truthy (stream_flag kvs) \<and>
    send c (length w) (chat_request cfg (JObj kvs) (request_headers_dict (in_headers rq))) = Inl e
    \<longrightarrow> chat_completions cfg c rq w =
          (Inl (HTTPException 500 (str e)),
           w @ [chat_request cfg (JObj kvs) (request_headers_dict (in_headers rq))])) \<and>
   (in_json rq = Inr (JObj kvs) \<and>
    send c (length w) (embeddings_request cfg (JObj kvs) (request_headers_dict (in_headers rq))) = Inl e
    \<longrightarrow> embeddings cfg c rq w =
          (Inl (HTTPException 500 (str e)),
           w @ [embeddings_request cfg (JObj kvs) (request_headers_dict (in_headers rq))])) \<and>
   (send c (length w) (transcription_request cfg rq) = Inl e
    \<longrightarrow> transcriptions cfg c rq w =
          (Inl (HTTPException 500 (str e)), w @ [transcription_request cfg rq])) \<and>
   (in_json rq = Inr (JObj kvs) \<and>
    send c (length w) (speech_request cfg (JObj kvs) (request_headers_dict (in_headers rq))) = Inl e
    \<longrightarrow> speech cfg c rq w =
          (Inl (HTTPException 500 (str e)),
           w @ [speech_request cfg (JObj kvs) (request_headers_dict (in_headers rq))]))"
  by (simp add: chat_buffered embeddings_run transcriptions_run speech_run)

text \<open>
  Every backend call refused: each of the four handlers raises the 500 after one call.
\<close>

theorem buffered_failure_is_500_once_witness:
  "chat_completions default_config dead_client plain_chat [] =
     (Inl (HTTPException 500 ''All connection attempts failed''),
      [chat_request default_config
         (JObj [(''model'', JStr ''bernard''), (''input'', JStr ''hi'')])
         [(''content-type'', ''application/json'')]]) \<and>
   embeddings default_config dead_client plain_chat [] =
     (Inl (HTTPException 500 ''All connection attempts failed''),
      [embeddings_request default_config
         (JObj [(''model'', JStr ''bernard''), (''input'', JStr ''hi'')])
         [(''content-type'', ''application/json'')]]) \<and>
   transcriptions default_config dead_client plain_chat [] =
     (Inl (HTTPException 500 ''All connection attempts failed''),
      [transcription_request default_config plain_chat]) \<and>
   speech default_config dead_client plain_chat [] =
     (Inl (HTTPException 500 ''All connection attempts failed''),
      [speech_request default_config
         (JObj [(''model'', JStr ''bernard''), (''input'', JStr ''hi'')])
         [(''content-type'', ''application/json'')]])"
  using buffered_failure_is_500_once
          [of plain_chat "[(''model'', JStr ''bernard''), (''input'', JStr ''hi'')]"
              dead_client "[]" default_config refused]
  by (simp add: plain_chat_def json_inbound_def dead_client_def refused_def stream_flag_def
        json_headers_def header_dict_defs)

text \<open>
  Claim C7: every proxying call whose backend call raises a transport exception answers
  the uniform 500.  A streaming chat completion does not: the exception is mapped to the
  500 only in the buffered branch, and the streaming branch has returned its
  \<^verbatim>\<open>StreamingResponse\<close> before the backend is called.  With the chat backend refusing
  the connection, before any chunk, the handler raises nothing, and its generator, once
  run, makes the one call, yields nothing and ends with the transport exception.
\<close>

theorem streaming_failure_is_not_500:
  "fst (chat_completions default_config dead_client streaming_chat []) \<noteq>
     Inl (HTTPException 500 ''All connection attempts failed'') \<and>
   is_streaming (fst (chat_completions default_config dead_client streaming_chat [])) \<and>
   snd (chat_completions default_config dead_client streaming_chat []) = [] \<and>
   run_stream (fst (chat_completions default_config dead_client streaming_chat [])) [] =
     Some (([], Some (TransportError ''All connection attempts failed'')),
           [chat_stream_request default_config
              (JObj [(''model'', JStr ''bernard''), (''stream'', JBool True)])
              [(''content-type'', ''application/json'')]])"
  by (simp add: chat_completions_def streaming_chat_def json_inbound_def dead_client_def
        refused_def stream_generator_def stream_call_def chat_stream_request_def
        default_config_def json_headers_def header_dict_defs)

section \<open>Streaming relay\<close>

text \<open>
  Claim C4: on a streaming chat completion whose backend stream opens, the chunks the
  generator yields are the chunks the backend emitted, one for one and in order (none
  dropped, duplicated or reordered), so their concatenations are equal; the generator
  makes one call.  A transfer that fails midway relays the chunks received before the
  failure.
\<close>

theorem stream_relay_preserves_chunks:
  "in_json rq = Inr (JObj kvs) \<Longrightarrow> truthy (stream_flag kvs) \<Longrightarrow>
   open_stream c (length w) (chat_stream_request cfg (JObj kvs) (request_headers_dict (in_headers rq))) = Inr sr \<Longrightarrow>
   run_stream (fst (chat_completions cfg c rq w)) w =
     Some ((chunks sr, stream_failure sr),
           w @ [chat_stream_request cfg (JObj kvs) (request_headers_dict (in_headers rq))]) \<and>
   map_option (\<lambda>out. concat (fst (fst out))) (run_stream (fst (chat_completions cfg c rq w)) w) =
     Some (concat (chunks sr))"
  by (simp add: chat_streaming stream_generator_run chat_stream_request_def)

text \<open>
  Four chunks, one of them empty, relayed as they are.
\<close>

theorem stream_relay_preserves_chunks_witness:
  "run_stream (fst (chat_completions default_config token_stream streaming_chat [])) [] =
     Some (([''data: Hel'', ''lo'', [], ''data: [DONE]''], None),
           [chat_stream_request default_config
              (JObj [(''model'', JStr ''bernard''), (''stream'', JBool True)])
              [(''content-type'', ''application/json'')]]) \<and>
   map_option (\<lambda>out. concat (fst (fst out)))
     (run_stream (fst (chat_completions default_config token_stream streaming_chat [])) []) =
     Some ''data: Hellodata: [DONE]''"
  using stream_relay_preserves_chunks
          [of streaming_chat "[(''model'', JStr ''bernard''), (''stream'', JBool True)]"
              token_stream "[]" default_config
              "\<lparr>stream_status = 200, stream_headers = json_headers,
                chunks = [''data: Hel'', ''lo'', [], ''data: [DONE]''],
                stream_failure = None\<rparr>"]
  by (simp add: streaming_chat_def json_inbound_def token_stream_def stream_flag_def
        json_headers_def header_dict_defs)

text \<open>
  Claim C5: with the stream flag absent or false, the handler returns only after the
  backend call has completed, and what it returns is a complete response (or the 500),
  never a stream; with the flag present and true it returns, before any backend call, a
  streaming response whose media type is \<open>text/event-stream\<close> whatever the backend does,
  and whose body, when the server iterates it, opens the stream on the chat backend with
  one \<^verbatim>\<open>POST\<close> of the same body and headers and relays what arrives.
\<close>

theorem stream_flag_selects_mode:
  "(in_json rq = Inr (JObj kvs) \<and>
    (map_of kvs ''stream'' = None \<or> map_of kvs ''stream'' = Some (JBool False))
    \<longrightarrow> chat_completions cfg c rq w =
          (case send c (length w)
                  (chat_request cfg (JObj kvs) (request_headers_dict (in_headers rq))) of
             Inr resp \<Rightarrow>
               Inr (Response (content resp) (status_code resp)
                      (response_headers_dict (headers resp)))
           | Inl e \<Rightarrow> Inl (HTTPException 500 (str e)),
           w @ [chat_request cfg (JObj kvs) (request_headers_dict (in_headers rq))]) \<and>
        \<not> is_streaming (fst (chat_completions cfg c rq w))) \<and>
   (in_json rq = Inr (JObj kvs) \<and> map_of kvs ''stream'' = Some (JBool True)
    \<longrightarrow> chat_completions cfg c rq w =
          (Inr (StreamingResponse
                  (stream_generator c (BERNARD_URL cfg @ ''/api/v1/chat/completions'')
                     (JObj kvs) (request_headers_dict (in_headers rq)))
                  ''text/event-stream''), w) \<and>
        run_stream (fst (chat_completions cfg c rq w)) w' =
          Some (case open_stream c (length w')
                       (chat_stream_request cfg (JObj kvs)
                          (request_headers_dict (in_headers rq))) of
                  Inl e \<Rightarrow> ([], Some e)
                | Inr upstream \<Rightarrow> (chunks upstream, stream_failure upstream),
                w' @ [chat_stream_request cfg (JObj kvs)
                        (request_headers_dict (in_headers rq))]))"
proof (intro conjI impI)
  assume a: "in_json rq = Inr (JObj kvs) \<and>
    (map_of kvs ''stream'' = None \<or> map_of kvs ''stream'' = Some (JBool False))"
  then have f: "\<not> truthy (stream_flag kvs)" by (auto simp: stream_flag_def)
  with a show "chat_completions cfg c rq w =
          (case send c (length w)
                  (chat_request cfg (JObj kvs) (request_headers_dict (in_headers rq))) of
             Inr resp \<Rightarrow>
               Inr (Response (content resp) (status_code resp)
                      (response_headers_dict (headers resp)))
           | Inl e \<Rightarrow> Inl (HTTPException 500 (str e)),
           w @ [chat_request cfg (JObj kvs) (request_headers_dict (in_headers rq))])"
    by (simp add: chat_buffered)
  from a f show "\<not> is_streaming (fst (chat_completions cfg c rq w))"
    by (simp add: chat_buffered split: sum.splits)
next
  assume s: "in_json rq = Inr (JObj kvs) \<and> map_of kvs ''stream'' = Some (JBool True)"
  then show "chat_completions cfg c rq w =
          (Inr (StreamingResponse
                  (stream_generator c (BERNARD_URL cfg @ ''/api/v1/chat/completions'')
                     (JObj kvs) (request_headers_dict (in_headers rq)))
                  ''text/event-stream''), w)"
    by (simp add: chat_streaming stream_flag_def)
  from s show "run_stream (fst (chat_completions cfg c rq w)) w' =
          Some (case open_stream c (length w')
                       (chat_stream_request cfg (JObj kvs)
                          (request_headers_dict (in_headers rq))) of
                  Inl e \<Rightarrow> ([], Some e)
                | Inr upstream \<Rightarrow> (chunks upstream, stream_failure upstream),
                w' @ [chat_stream_request cfg (JObj kvs)
                        (request_headers_dict (in_headers rq))])"
    by (simp add: chat_streaming stream_flag_def stream_generator_run chat_stream_request_def)
qed

text \<open>
  An explicit \<open>false\<close> against the overloaded backend; a \<open>true\<close> against a backend
  that declares a JSON content type and streams four chunks.
\<close>

theorem stream_flag_selects_mode_witness:
  "chat_completions default_config overloaded_backend explicit_false_chat [] =
     (Inr (Response overloaded_body 503 [(''content-type'', ''application/json'')]),
      [chat_request default_config
         (JObj [(''model'', JStr ''bernard''), (''stream'', JBool False)])
         [(''content-type'', ''application/json'')]]) \<and>
   chat_completions default_config token_stream streaming_chat [] =
     (Inr (StreamingResponse
             (stream_generator token_stream ''http://localhost:3000/api/v1/chat/completions''
                (JObj [(''model'', JStr ''bernard''), (''stream'', JBool True)])
                [(''content-type'', ''application/json'')])
             ''text/event-stream''), []) \<and>
   run_stream (fst (chat_completions default_config token_stream streaming_chat [])) [] =
     Some (([''data: Hel'', ''lo'', [], ''data: [DONE]''], None),
           [Stream ''POST'' ''http://localhost:3000/api/v1/chat/completions''
              (JsonBody (JObj [(''model'', JStr ''bernard''), (''stream'', JBool True)]))
              [(''content-type'', ''application/json'')]])"
proof -
  note buffered = stream_flag_selects_mode
         [where rq = explicit_false_chat and cfg = default_config and c = overloaded_backend
            and kvs = "[(''model'', JStr ''bernard''), (''stream'', JBool False)]"
            and w = "[]"]
  note streaming = stream_flag_selects_mode
         [where rq = streaming_chat and cfg = default_config and c = token_stream
            and kvs = "[(''model'', JStr ''bernard''), (''stream'', JBool True)]"
            and w = "[]" and w' = "[]"]
  have "chat_completions default_config overloaded_backend explicit_false_chat [] =
     (Inr (Response overloaded_body 503 [(''content-type'', ''application/json'')]),
      [chat_request default_config
         (JObj [(''model'', JStr ''bernard''), (''stream'', JBool False)])
         [(''content-type'', ''application/json'')]])"
    using buffered
    by (simp add: explicit_false_chat_def json_inbound_def overloaded_backend_def
          plain_response_def json_headers_def header_dict_defs)
  moreover
  have "chat_completions default_config token_stream streaming_chat [] =
     (Inr (StreamingResponse
             (stream_generator token_stream ''http://localhost:3000/api/v1/chat/completions''
                (JObj [(''model'', JStr ''bernard''), (''stream'', JBool True)])
                [(''content-type'', ''application/json'')])
             ''text/event-stream''), [])"
    using streaming
    by (simp add: streaming_chat_def json_inbound_def default_config_def json_headers_def
          header_dict_defs)
  moreover
  have "run_stream (fst (chat_completions default_config token_stream streaming_chat [])) [] =
     Some (([''data: Hel'', ''lo'', [], ''data: [DONE]''], None),
           [Stream ''POST'' ''http://localhost:3000/api/v1/chat/completions''
              (JsonBody (JObj [(''model'', JStr ''bernard''), (''stream'', JBool True)]))
              [(''content-type'', ''application/json'')]])"
  proof -
    have flag: "in_json streaming_chat =
          Inr (JObj [(''model'', JStr ''bernard''), (''stream'', JBool True)]) \<and>
        map_of [(''model'', JStr ''bernard''), (''stream'', JBool True)] ''stream'' =
          Some (JBool True)"
      by (simp add: streaming_chat_def json_inbound_def)
    from streaming flag
    have "run_stream (fst (chat_completions default_config token_stream streaming_chat [])) [] =
          Some (case open_stream token_stream (length ([]::world))
                       (chat_stream_request default_config
                          (JObj [(''model'', JStr ''bernard''), (''stream'', JBool True)])
                          (request_headers_dict (in_headers streaming_chat))) of
                  Inl e \<Rightarrow> ([], Some e)
                | Inr upstream \<Rightarrow> (chunks upstream, stream_failure upstream),
                [] @ [chat_stream_request default_config
                        (JObj [(''model'', JStr ''bernard''), (''stream'', JBool True)])
                        (request_headers_dict (in_headers streaming_chat))])"
      by blast
    then show ?thesis
      by (simp add: token_stream_def chat_stream_request_def streaming_chat_def
            json_inbound_def json_headers_def default_config_def header_dict_defs)
  qed
  ultimately show ?thesis by blast
qed



section \<open>Transcription forms\<close>

text \<open>
  Claim C9, as amended: the outbound request carries one part for each field name of the
  inbound form, the part submitted last under that name, as a file part if it is an
  upload and as a scalar field otherwise.  The names sent are exactly the names received
  (so a form without \<open>language\<close> gives a request without it, and names the backend does
  not know are forwarded), and when no name is repeated the parts sent are the inbound
  file parts and scalar fields, in order.
\<close>

theorem transcription_form_forwarded:
  "parts = form_items (in_form rq) \<Longrightarrow>
   snd (transcriptions cfg c rq w) =
     w @ [Post (WHISPER_URL cfg @ ''/v1/audio/transcriptions'')
            (FormBody (scalar_fields parts) (file_parts parts)) (request_headers_dict (in_headers rq))] \<and>
   map_of parts = map_of (rev (in_form rq)) \<and>
   distinct (map fst parts) \<and>
   fst ` set (scalar_fields parts) \<union> fst ` set (file_parts parts) = fst ` set (in_form rq) \<and>
   (distinct (map fst (in_form rq)) \<longrightarrow> parts = in_form rq)"
proof (intro conjI impI)
  assume p: "parts = form_items (in_form rq)"
  show "snd (transcriptions cfg c rq w) =
     w @ [Post (WHISPER_URL cfg @ ''/v1/audio/transcriptions'')
            (FormBody (scalar_fields parts) (file_parts parts)) (request_headers_dict (in_headers rq))]"
    by (simp add: p transcriptions_run transcription_request_parts)
  show "map_of parts = map_of (rev (in_form rq))"
    by (simp add: p form_items_def map_of_dict)
  show "distinct (map fst parts)"
    by (simp add: p form_items_def dict_def distinct_dict_from)
  show "fst ` set (scalar_fields parts) \<union> fst ` set (file_parts parts) = fst ` set (in_form rq)"
    by (simp add: p keys_parts_fields) (simp add: form_items_def dict_def keys_dict_from)
  show "parts = in_form rq" if "distinct (map fst (in_form rq))"
    using that by (simp add: p form_items_def dict_distinct)
qed

text \<open>
  A form with a file, a model and an unknown field, and no \<open>language\<close>.
\<close>

theorem transcription_form_forwarded_witness:
  "snd (transcriptions default_config dead_client (form_inbound no_language_form) []) =
     [Post ''http://localhost:8002/v1/audio/transcriptions''
        (FormBody [(''model'', ''whisper-1''), (''custom_flag'', ''1'')]
                  [(''file'', (''a.wav'', ''RIFF'', Some ''audio/wav''))])
        [(''content-type'', ''multipart/form-data; boundary=xyz'')]]"
proof -
  have "form_items (in_form (form_inbound no_language_form)) = no_language_form"
    by (simp add: no_language_form_def form_inbound_def form_items_def dict_def)
  with transcription_form_forwarded
         [OF refl, where rq = "form_inbound no_language_form" and cfg = default_config
            and c = dead_client and w = "[]"]
  have "snd (transcriptions default_config dead_client (form_inbound no_language_form) []) =
          [] @ [Post (WHISPER_URL default_config @ ''/v1/audio/transcriptions'')
            (FormBody (scalar_fields no_language_form) (file_parts no_language_form))
            (request_headers_dict (in_headers (form_inbound no_language_form)))]"
    by simp
  then show ?thesis
    by (simp add: no_language_form_def form_inbound_def default_config_def header_dict_defs)
qed

text \<open>
  Claim C9 as stated fails on a form that repeats a name: of the two values of
  \<open>timestamp_granularities[]\<close> only the last is sent.
\<close>

theorem repeated_field_dropped:
  "snd (transcriptions default_config dead_client (form_inbound repeated_field_form) []) =
     [Post ''http://localhost:8002/v1/audio/transcriptions''
        (FormBody [(''timestamp_granularities[]'', ''segment'')]
                  [(''file'', (''a.wav'', ''RIFF'', Some ''audio/wav''))])
        [(''content-type'', ''multipart/form-data; boundary=xyz'')]] \<and>
   scalar_fields (in_form (form_inbound repeated_field_form)) =
     [(''timestamp_granularities[]'', ''word''), (''timestamp_granularities[]'', ''segment'')]"
  by (simp add: transcriptions_def repeated_field_form_def form_inbound_def form_items_def
        header_dict_defs http_call_def default_config_def dead_client_def Let_def)


end
